theory Spec2Isabelle
  imports Main
begin

section \<open>Standalone embedding (bokeh/embed/standalone.py)\<close>

text \<open>
  A shallow embedding of the four entry points of \<^verbatim>\<open>bokeh/embed/standalone.py\<close>
  (\<^verbatim>\<open>autoload_static\<close>, \<^verbatim>\<open>components\<close>, \<^verbatim>\<open>file_html\<close>, \<^verbatim>\<open>json_item\<close>) and of its two private
  helpers (\<^verbatim>\<open>_check_models_or_docs\<close>, \<^verbatim>\<open>_title_from_models\<close>, written here without the leading
  underscore, which an Isabelle name cannot carry).

  Models and documents are Python objects that alias each other (a model points to its
  document, a document lists its roots, \<^verbatim>\<open>json_item\<close> assigns to the title of a document it
  did not create), so they live in an explicit store and are referred to by identity.
  Every function that can raise returns a sum, with the exception on the left; every
  function that touches an object takes the store and returns it.
\<close>

subsection \<open>Objects and the store\<close>

type_synonym ID = string
type_synonym model_id = nat
type_synonym doc_id = nat

datatype theme = Theme string

text \<open>
  What the module reads of a \<^verbatim>\<open>Document\<close>: \<^verbatim>\<open>doc.roots\<close>, \<^verbatim>\<open>doc.title\<close>, and the theme it
  carries. What it reads of a \<^verbatim>\<open>Model\<close>: \<^verbatim>\<open>model.document\<close>, the owning document or
  \<^verbatim>\<open>None\<close>. A document is addressed by its position in \<open>docs\<close>.
\<close>

record document =
  roots :: "model_id list"
  title :: string
  theme :: "theme option"

record store =
  docs :: "document list"
  model_document :: "model_id \<Rightarrow> doc_id option"

text \<open>\<^verbatim>\<open>ModelLike = Union[Model, Document]\<close>.\<close>

datatype model_like = Model model_id | Document doc_id

text \<open>
  The values a caller can hand to the dynamically checked entry points: a model or a
  document, the three kinds of \<^verbatim>\<open>Sequence\<close> (list, tuple, and \<^verbatim>\<open>str\<close>, a sequence of
  one-character strings), a \<^verbatim>\<open>dict\<close> of some class with its items in insertion order
  (Python keeps the keys of a dict distinct), and scalars that are none of these. The class
  of a dict is \<^verbatim>\<open>dict\<close> itself, one of the standard subclasses \<^verbatim>\<open>OrderedDict\<close> and
  \<^verbatim>\<open>defaultdict\<close>, or some other subclass, known by its name.
\<close>

datatype dict_class = Dict | OrderedDict | Defaultdict | DictSubclass string

datatype pyobj =
    Obj model_like
  | PNone
  | PInt int
  | PStr string
  | PList "pyobj list"
  | PTuple "pyobj list"
  | PDict dict_class "(pyobj \<times> pyobj) list"

datatype error =
    ValueError string
  | IndexError string
  | KeyError string
  | TypeError string
  | UnsupportedRootError string

subsection \<open>Values exchanged with the collaborators\<close>

datatype json =
    JNull
  | JBool bool
  | JNum int
  | JStr string
  | JList "json list"
  | JDict "(string \<times> json) list"

text \<open>\<^verbatim>\<open>docs_json\<close> is a \<^verbatim>\<open>dict[ID, DocJson]\<close>, kept in insertion order.\<close>

type_synonym docs_json = "(ID \<times> json) list"

text \<open>
  A \<^verbatim>\<open>RenderItem\<close> carries the id of its document and its \<^verbatim>\<open>RenderRoots\<close>; iterating the
  roots yields one \<^verbatim>\<open>RenderRoot\<close> (element id, model id) per root, in order, and
  \<^verbatim>\<open>roots.to_json()\<close> is the dict from model id to element id in the same order.
\<close>

record RenderRoot =
  elementid :: ID
  rid :: ID

record RenderItem =
  docid :: ID
  render_roots :: "RenderRoot list"

text \<open>The \<^verbatim>\<open>TypedDict\<close> that \<^verbatim>\<open>json_item\<close> returns.\<close>

record StandaloneEmbedJson =
  target_id :: "ID option"
  root_id :: json
  doc :: json
  version :: string

text \<open>
  The second component of what \<^verbatim>\<open>components\<close> returns: a div string or a \<^verbatim>\<open>RenderRoot\<close>
  per root, alone, in a tuple, or in a dict of the caller's class; or, when the constructor
  of the caller's dict subclass makes something else of its argument, that value.
\<close>

datatype plot_info = Div string | Root RenderRoot

datatype shaped =
    Single plot_info
  | Tuple "plot_info list"
  | Mapping dict_class "(pyobj \<times> plot_info) list"
  | Built pyobj

text \<open>
  The names the module imports and only calls: the two serialization functions of
  \<^verbatim>\<open>bokeh.embed.util\<close>, the bundle builder, the script and page builders, the templates, and
  the constants \<^verbatim>\<open>DEFAULT_TITLE\<close> and \<^verbatim>\<open>__version__\<close>. None of their code is part of the
  module, so they are parameters of the model: every theorem below holds for all of them.
  Serialization reads the store and may raise; the builders and templates are functions of
  what they are given. \<open>DEFAULT_THEME\<close> and \<open>new_document_title\<close> are the theme applied
  when nothing else decides it and the title a freshly constructed \<^verbatim>\<open>Document\<close> carries.
  \<open>dict_subclass_call\<close> is the constructor of a caller's own dict subclass, applied to an
  iterable of pairs: it is the caller's code, so it is a parameter as well.
\<close>

record ('res, 'bun, 'tpl, 'var) collaborators =
  DEFAULT_TITLE :: string
  DEFAULT_THEME :: theme
  new_document_title :: string
  bokeh_version :: string
  standalone_docs_json_and_render_items ::
    "store \<Rightarrow> model_like list \<Rightarrow> bool \<Rightarrow> error + (docs_json \<times> RenderItem list)"
  standalone_docs_json :: "store \<Rightarrow> model_like list \<Rightarrow> error + docs_json"
  bundle_for_objs_and_resources :: "store \<Rightarrow> doc_id list option \<Rightarrow> 'res option \<Rightarrow> 'bun"
  bundle_add_script :: "'bun \<Rightarrow> string \<Rightarrow> 'bun"
  bundle_scripts :: "'bun \<Rightarrow> bool \<Rightarrow> string"
  script_for_render_items :: "docs_json \<Rightarrow> RenderItem list \<Rightarrow> string"
  ROOT_DIV_render :: "RenderRoot \<Rightarrow> string"
  AUTOLOAD_JS_render :: "'bun \<Rightarrow> ID \<Rightarrow> string"
  AUTOLOAD_TAG_render :: "string \<Rightarrow> ID \<Rightarrow> string"
  wrap_in_onload :: "string \<Rightarrow> string"
  html_page_for_render_items ::
    "'bun \<Rightarrow> docs_json \<Rightarrow> RenderItem list \<Rightarrow> string \<Rightarrow> 'tpl \<Rightarrow> 'var \<Rightarrow> string"
  dict_subclass_call :: "string \<Rightarrow> (pyobj \<times> plot_info) list \<Rightarrow> error + shaped"

subsection \<open>Python's dynamic checks and subscripts\<close>

text \<open>\<^verbatim>\<open>isinstance(x, (Model, Document))\<close>, \<^verbatim>\<open>isinstance(x, Model)\<close>, \<^verbatim>\<open>isinstance(x, str)\<close>.\<close>

fun is_model_or_doc :: "pyobj \<Rightarrow> bool" where
  "is_model_or_doc (Obj _) = True"
| "is_model_or_doc _ = False"

fun is_Model :: "pyobj \<Rightarrow> bool" where
  "is_Model (Obj (Model _)) = True"
| "is_Model _ = False"

fun is_str :: "pyobj \<Rightarrow> bool" where
  "is_str (PStr _) = True"
| "is_str _ = False"

text \<open>\<^verbatim>\<open>isinstance(x, Sequence)\<close> and the elements that iterating such an \<open>x\<close> yields.\<close>

fun is_Sequence :: "pyobj \<Rightarrow> bool" where
  "is_Sequence (PList _) = True"
| "is_Sequence (PTuple _) = True"
| "is_Sequence (PStr _) = True"
| "is_Sequence _ = False"

fun seq_items :: "pyobj \<Rightarrow> pyobj list" where
  "seq_items (PList xs) = xs"
| "seq_items (PTuple xs) = xs"
| "seq_items (PStr s) = map (\<lambda>c. PStr [c]) s"
| "seq_items _ = []"

text \<open>
  Once \<^verbatim>\<open>_check_models_or_docs\<close> has passed, every element is a model or a document; the
  model then hands them on at that type.
\<close>

fun as_model_like :: "pyobj \<Rightarrow> model_like option" where
  "as_model_like (Obj x) = Some x"
| "as_model_like _ = None"

definition model_likes :: "pyobj list \<Rightarrow> model_like list" where
  "model_likes xs = List.map_filter as_model_like xs"

text \<open>\<^verbatim>\<open>x[k]\<close> for a string \<open>k\<close>, and \<^verbatim>\<open>x[0]\<close>, on a JSON value.\<close>

fun json_getitem :: "json \<Rightarrow> string \<Rightarrow> error + json" where
  "json_getitem (JDict kvs) k =
     (case map_of kvs k of Some v \<Rightarrow> Inr v | None \<Rightarrow> Inl (KeyError k))"
| "json_getitem _ k = Inl (TypeError ''indices must be integers or the object is not subscriptable'')"

fun json_first :: "json \<Rightarrow> error + json" where
  "json_first (JList []) = Inl (IndexError ''list index out of range'')"
| "json_first (JList (x # xs)) = Inr x"
| "json_first (JStr []) = Inl (IndexError ''string index out of range'')"
| "json_first (JStr (c # cs)) = Inr (JStr [c])"
| "json_first (JDict kvs) = Inl (KeyError ''0'')"
| "json_first _ = Inl (TypeError ''object is not subscriptable'')"

text \<open>
  The unpacking assignment \<^verbatim>\<open>[x] = xs\<close>: a \<^verbatim>\<open>ValueError\<close> unless \<open>xs\<close> has exactly one
  element.
\<close>

fun unpack_one :: "'a list \<Rightarrow> error + 'a" where
  "unpack_one [] = Inl (ValueError ''not enough values to unpack (expected 1, got 0)'')"
| "unpack_one [x] = Inr x"
| "unpack_one _ = Inl (ValueError ''too many values to unpack (expected 1)'')"

subsection \<open>\<^verbatim>\<open>_check_models_or_docs\<close>\<close>

definition input_message :: string where
  "input_message =
     ''Input must be a Model, a Document, a Sequence of Models and Document, or a dictionary from string to Model and Document''"

definition check_models_or_docs :: "pyobj \<Rightarrow> error + pyobj" where
  "check_models_or_docs models0 =
     (let models = (if is_model_or_doc models0 then PList [models0] else models0);
          valid_sequence = (is_Sequence models \<and> list_all is_model_or_doc (seq_items models));
          valid_dict =
            (case models of
               PDict c kvs \<Rightarrow>
                 list_all is_str (map fst kvs) \<and> list_all is_model_or_doc (map snd kvs)
             | _ \<Rightarrow> False)
      in if \<not> (valid_sequence \<or> valid_dict) then Inl (ValueError input_message)
         else Inr models)"

subsection \<open>\<^verbatim>\<open>_title_from_models\<close>\<close>

text \<open>
  The first loop returns the title of the first element that is a \<^verbatim>\<open>Document\<close>; the second
  runs only when there was none, and returns the title of the document of the first model
  that has one. (The second loop never meets a \<^verbatim>\<open>Document\<close>: the first would have returned.)
\<close>

fun title_of_listed_document :: "store \<Rightarrow> model_like list \<Rightarrow> string option" where
  "title_of_listed_document st [] = None"
| "title_of_listed_document st (Document d # ps) = Some (title (docs st ! d))"
| "title_of_listed_document st (Model m # ps) = title_of_listed_document st ps"

fun title_of_model_document :: "store \<Rightarrow> model_like list \<Rightarrow> string option" where
  "title_of_model_document st [] = None"
| "title_of_model_document st (Model m # ps) =
     (case model_document st m of
        Some d \<Rightarrow> Some (title (docs st ! d))
      | None \<Rightarrow> title_of_model_document st ps)"
| "title_of_model_document st (Document d # ps) = title_of_model_document st ps"

definition title_from_models ::
  "('res, 'bun, 'tpl, 'var) collaborators \<Rightarrow> store \<Rightarrow> model_like list \<Rightarrow> string option \<Rightarrow> string"
where
  "title_from_models env st models title_arg =
     (case title_arg of
        Some t \<Rightarrow> t
      | None \<Rightarrow>
          (case title_of_listed_document st models of
             Some t \<Rightarrow> t
           | None \<Rightarrow>
               (case title_of_model_document st models of
                  Some t \<Rightarrow> t
                | None \<Rightarrow> DEFAULT_TITLE env)))"

subsection \<open>The output-document scope (\<^verbatim>\<open>OutputDocumentFor\<close>)\<close>

text \<open>
  Modelled from the spec: the context manager \<^verbatim>\<open>OutputDocumentFor\<close> of \<^verbatim>\<open>bokeh.embed.util\<close>,
  which the module imports and whose code is not part of it. The definitions of this
  subsection follow the spec's Scoped Container Resolver, sentence by sentence:

  \<^item> a document among the items stands for its roots (``a Container input is expanded to
    its roots at the Resolver stage'');
  \<^item> ``if every item already shares exactly one Container and \<open>force_new\<close> is false, that
    Container is reused as-is; no transient object is created'';
  \<^item> ``otherwise a transient Container is created, all items are temporarily attached as
    its roots (detaching from any prior container for the duration)'': the transient
    document is allocated at the end of \<open>docs\<close>, and the back-reference of every item is
    pointed at it;
  \<^item> theme precedence: ``explicit caller-supplied theme wins; else, if the resolved
    Container already carries a theme (reused case), keep it; else apply a toolkit-wide
    default theme''; on a reused container the theme is overridden ``for the duration'';
  \<^item> cleanup ``restoring any temporarily-detached roots to their original container and
    discarding the transient Container'', run ``regardless of success/failure''.

  The \<^verbatim>\<open>FromCurdoc\<close> sentinel that \<^verbatim>\<open>ThemeLike\<close> also admits is not described by the spec and
  is left out: a theme argument is a theme or \<^verbatim>\<open>None\<close>. The docstrings of the module speak
  of the theme of a document being applied when the supplied models ``constitute the full
  set of roots'' of it; the concrete inputs evaluated below reuse a document only when the
  requested models are all of its roots, so they read the same under either wording.
\<close>

fun item_models :: "store \<Rightarrow> model_like \<Rightarrow> model_id list" where
  "item_models st (Model m) = [m]"
| "item_models st (Document d) = roots (docs st ! d)"

definition resolved_items :: "store \<Rightarrow> model_like list \<Rightarrow> model_id list" where
  "resolved_items st objs = concat (map (item_models st) objs)"

definition shared_container :: "store \<Rightarrow> model_id list \<Rightarrow> doc_id option" where
  "shared_container st ms =
     (case remdups (map (model_document st) ms) of
        [Some d] \<Rightarrow> Some d
      | _ \<Rightarrow> None)"

definition theme_precedence :: "theme \<Rightarrow> theme option \<Rightarrow> theme option \<Rightarrow> theme" where
  "theme_precedence default_theme explicit carried =
     (case explicit of
        Some t \<Rightarrow> t
      | None \<Rightarrow> (case carried of Some t \<Rightarrow> t | None \<Rightarrow> default_theme))"

text \<open>
  What the scope remembers from entry to exit: the resolved document, whether it is
  transient, and what to put back (the items' former back-references, the reused
  document's former theme).
\<close>

record scope =
  scope_doc :: doc_id
  transient :: bool
  attached :: "model_id list"
  prior_document :: "doc_id option list"
  prior_theme :: "theme option"

definition set_theme :: "doc_id \<Rightarrow> theme option \<Rightarrow> store \<Rightarrow> store" where
  "set_theme d th st = st\<lparr>docs := (docs st)[d := (docs st ! d)\<lparr>theme := th\<rparr>]\<rparr>"

definition OutputDocumentFor_enter ::
  "('res, 'bun, 'tpl, 'var) collaborators \<Rightarrow> model_like list \<Rightarrow> theme option \<Rightarrow> bool \<Rightarrow>
     store \<Rightarrow> scope \<times> store"
where
  "OutputDocumentFor_enter env objs apply_theme always_new st =
     (let ms = resolved_items st objs in
      case (if always_new then None else shared_container st ms) of
        Some d \<Rightarrow>
          (\<lparr>scope_doc = d, transient = False, attached = [], prior_document = [],
            prior_theme = theme (docs st ! d)\<rparr>,
           set_theme d
             (Some (theme_precedence (DEFAULT_THEME env) apply_theme (theme (docs st ! d)))) st)
      | None \<Rightarrow>
          (\<lparr>scope_doc = length (docs st), transient = True, attached = ms,
            prior_document = map (model_document st) ms, prior_theme = None\<rparr>,
           st\<lparr>docs := docs st @
                 [\<lparr>roots = ms, title = new_document_title env,
                   theme = Some (theme_precedence (DEFAULT_THEME env) apply_theme None)\<rparr>],
              model_document :=
                (\<lambda>m. if m \<in> set ms then Some (length (docs st)) else model_document st m)\<rparr>))"

definition OutputDocumentFor_exit :: "scope \<Rightarrow> store \<Rightarrow> store" where
  "OutputDocumentFor_exit sc st =
     (if transient sc then
        st\<lparr>docs := butlast (docs st),
           model_document :=
             (\<lambda>m. case map_of (zip (attached sc) (prior_document sc)) m of
                     Some former \<Rightarrow> former
                   | None \<Rightarrow> model_document st m)\<rparr>
      else set_theme (scope_doc sc) (prior_theme sc) st)"

text \<open>
  \<^verbatim>\<open>with OutputDocumentFor(objs, apply_theme=..., always_new=...) as doc: body\<close>. The body
  may assign to the objects (so it returns the store) and may raise or return (so it
  returns a sum); the exit runs either way and the outcome of the body is the outcome of
  the statement.
\<close>

definition with_OutputDocumentFor ::
  "('res, 'bun, 'tpl, 'var) collaborators \<Rightarrow> model_like list \<Rightarrow> theme option \<Rightarrow> bool \<Rightarrow>
     (doc_id \<Rightarrow> store \<Rightarrow> store \<times> (error + 'a)) \<Rightarrow> store \<Rightarrow> store \<times> (error + 'a)"
where
  "with_OutputDocumentFor env objs apply_theme always_new body st =
     (case OutputDocumentFor_enter env objs apply_theme always_new st of
        (sc, st_in) \<Rightarrow>
          (case body (scope_doc sc) st_in of
             (st_out, outcome) \<Rightarrow> (OutputDocumentFor_exit sc st_out, outcome)))"

subsection \<open>\<^verbatim>\<open>autoload_static\<close>\<close>

text \<open>
  \<^verbatim>\<open>(docs_json, [render_item]) = standalone_docs_json_and_render_items(...)\<close>: the call,
  then the unpacking of the list of render items into exactly one.
\<close>

definition one_render_item ::
  "error + (docs_json \<times> RenderItem list) \<Rightarrow> error + (docs_json \<times> RenderItem)"
where
  "one_render_item r =
     (case r of
        Inl e \<Rightarrow> Inl e
      | Inr (docs_json, render_items) \<Rightarrow>
          (case unpack_one render_items of
             Inl e \<Rightarrow> Inl e
           | Inr render_item \<Rightarrow> Inr (docs_json, render_item)))"

text \<open>
  \<^verbatim>\<open>(_, elementid) = list(render_item.roots.to_json().items())[0]\<close>: the element id of the
  first root, an \<^verbatim>\<open>IndexError\<close> when there is none.
\<close>

fun first_elementid :: "RenderItem \<Rightarrow> error + ID" where
  "first_elementid render_item =
     (case render_roots render_item of
        [] \<Rightarrow> Inl (IndexError ''list index out of range'')
      | r # rs \<Rightarrow> Inr (elementid r))"

definition autoload_static ::
  "('res, 'bun, 'tpl, 'var) collaborators \<Rightarrow> pyobj \<Rightarrow> 'res \<Rightarrow> string \<Rightarrow> store \<Rightarrow>
     store \<times> (error + string \<times> string)"
where
  "autoload_static env model resources script_path st =
     (case model of
        Obj obj \<Rightarrow>
          (let models = (case obj of
                           Model m \<Rightarrow> [Model m]
                         | Document d \<Rightarrow> map Model (roots (docs st ! d)))
           in case with_OutputDocumentFor env models None False
                     (\<lambda>doc s. (s, one_render_item
                                    (standalone_docs_json_and_render_items env s [obj] False)))
                     st of
                (st', Inl e) \<Rightarrow> (st', Inl e)
              | (st', Inr (docs_json, render_item)) \<Rightarrow>
                  (let bundle = bundle_add_script env
                                  (bundle_for_objs_and_resources env st' None (Some resources))
                                  (script_for_render_items env docs_json [render_item])
                   in case first_elementid render_item of
                        Inl e \<Rightarrow> (st', Inl e)
                      | Inr element \<Rightarrow>
                          (st', Inr (wrap_in_onload env (AUTOLOAD_JS_render env bundle element),
                                     AUTOLOAD_TAG_render env script_path element))))
      | _ \<Rightarrow> (st, Inl (ValueError ''autoload_static expects a single Model or Document'')))"

subsection \<open>\<^verbatim>\<open>components\<close>\<close>

text \<open>
  \<^verbatim>\<open>dict_type(zip(model_keys, results))\<close>, where \<^verbatim>\<open>dict_type\<close> is the class of the caller's
  dict: the call of that class on an iterable of pairs. \<^verbatim>\<open>dict\<close> and \<^verbatim>\<open>OrderedDict\<close> build
  the mapping that holds the pairs, in order. \<^verbatim>\<open>defaultdict\<close> takes its first argument to
  be the default factory and raises \<^verbatim>\<open>TypeError\<close> for one that is neither callable nor
  \<^verbatim>\<open>None\<close>, as an iterable of pairs is. Any other subclass runs its own constructor (that of
  \<^verbatim>\<open>Counter\<close>, for one, counts the pairs instead of storing them). The module has no
  fallback for a constructor that raises.
\<close>

definition dict_type_call ::
  "('res, 'bun, 'tpl, 'var) collaborators \<Rightarrow> dict_class \<Rightarrow> (pyobj \<times> plot_info) list \<Rightarrow>
     error + shaped"
where
  "dict_type_call env dict_type pairs =
     (case dict_type of
        Dict \<Rightarrow> Inr (Mapping Dict pairs)
      | OrderedDict \<Rightarrow> Inr (Mapping OrderedDict pairs)
      | Defaultdict \<Rightarrow> Inl (TypeError ''first argument must be callable or None'')
      | DictSubclass name \<Rightarrow> dict_subclass_call env name pairs)"

text \<open>Step 3 of \<^verbatim>\<open>components\<close>: convert the per-root results back to the input shape.\<close>

definition reshape ::
  "('res, 'bun, 'tpl, 'var) collaborators \<Rightarrow> bool \<Rightarrow> pyobj list option \<Rightarrow> dict_class \<Rightarrow>
     plot_info list \<Rightarrow> error + shaped"
where
  "reshape env was_single_object model_keys dict_type results =
     (if was_single_object then
        (case results of
           [] \<Rightarrow> Inl (IndexError ''list index out of range'')
         | r # rs \<Rightarrow> Inr (Single r))
      else
        (case model_keys of
           Some keys \<Rightarrow> dict_type_call env dict_type (zip keys results)
         | None \<Rightarrow> Inr (Tuple results)))"

definition components ::
  "('res, 'bun, 'tpl, 'var) collaborators \<Rightarrow> pyobj \<Rightarrow> bool \<Rightarrow> bool \<Rightarrow> theme option \<Rightarrow> store \<Rightarrow>
     store \<times> (error + string \<times> shaped)"
where
  "components env models0 wrap_script wrap_plot_info theme_arg st =
     (let was_single_object = is_Model models0;
          models1 = (if is_Model models0 then PList [models0] else models0)
      in case check_models_or_docs models1 of
           Inl e \<Rightarrow> (st, Inl e)
         | Inr models2 \<Rightarrow>
             (let model_keys = (case models2 of PDict c kvs \<Rightarrow> Some (map fst kvs) | _ \<Rightarrow> None);
                  dict_type = (case models2 of PDict c kvs \<Rightarrow> c | _ \<Rightarrow> Dict);
                  models = model_likes (case models2 of
                                          PDict c kvs \<Rightarrow> map snd kvs
                                        | _ \<Rightarrow> seq_items models2)
              in case with_OutputDocumentFor env models theme_arg False
                        (\<lambda>doc s. (s, one_render_item
                                       (standalone_docs_json_and_render_items env s models False)))
                        st of
                   (st', Inl e) \<Rightarrow> (st', Inl e)
                 | (st', Inr (docs_json, render_item)) \<Rightarrow>
                     (let bundle = bundle_add_script env
                                     (bundle_for_objs_and_resources env st' None None)
                                     (script_for_render_items env docs_json [render_item]);
                          script = bundle_scripts env bundle wrap_script;
                          results =
                            (if wrap_plot_info
                             then map (\<lambda>root. Div (ROOT_DIV_render env root))
                                    (render_roots render_item)
                             else map Root (render_roots render_item))
                      in case reshape env was_single_object model_keys dict_type results of
                           Inl e \<Rightarrow> (st', Inl e)
                         | Inr result \<Rightarrow> (st', Inr (script, result)))))"

subsection \<open>\<^verbatim>\<open>file_html\<close>\<close>

text \<open>
  The declared argument of \<^verbatim>\<open>file_html\<close>, which checks nothing at run time: a model, a
  document, or a sequence (whose elements \<^verbatim>\<open>_title_from_models\<close> takes to be models or
  documents).
\<close>

datatype models_arg = One model_like | Seq "model_like list"

fun models_seq :: "store \<Rightarrow> models_arg \<Rightarrow> model_like list" where
  "models_seq st (One (Model m)) = [Model m]"
| "models_seq st (One (Document d)) = map Model (roots (docs st ! d))"
| "models_seq st (Seq xs) = xs"

definition file_html ::
  "('res, 'bun, 'tpl, 'var) collaborators \<Rightarrow> models_arg \<Rightarrow> 'res option \<Rightarrow> string option \<Rightarrow>
     'tpl \<Rightarrow> 'var \<Rightarrow> theme option \<Rightarrow> bool \<Rightarrow> bool \<Rightarrow> store \<Rightarrow> store \<times> (error + string)"
where
  "file_html env models resources title_arg template template_variables theme_arg
       suppress_callback_warning always_new st =
     with_OutputDocumentFor env (models_seq st models) theme_arg always_new
       (\<lambda>doc s.
          (s, case standalone_docs_json_and_render_items env s (models_seq st models)
                     suppress_callback_warning of
                Inl e \<Rightarrow> Inl e
              | Inr (docs_json, render_items) \<Rightarrow>
                  (let page_title = title_from_models env s (models_seq st models) title_arg;
                       bundle = bundle_for_objs_and_resources env s (Some [doc]) resources
                   in Inr (html_page_for_render_items env bundle docs_json render_items
                             page_title template template_variables))))
       st"

subsection \<open>\<^verbatim>\<open>json_item\<close>\<close>

definition set_title :: "doc_id \<Rightarrow> string \<Rightarrow> store \<Rightarrow> store" where
  "set_title d t st = st\<lparr>docs := (docs st)[d := (docs st ! d)\<lparr>title := t\<rparr>]\<rparr>"

text \<open>\<^verbatim>\<open>[doc_json] = standalone_docs_json([model]).values()\<close>.\<close>

definition one_doc_json :: "error + docs_json \<Rightarrow> error + json" where
  "one_doc_json r =
     (case r of
        Inl e \<Rightarrow> Inl e
      | Inr docs_json \<Rightarrow> unpack_one (map snd docs_json))"

text \<open>\<^verbatim>\<open>doc_json["roots"][0]["id"]\<close>.\<close>

definition first_root_id :: "json \<Rightarrow> error + json" where
  "first_root_id doc_json =
     (case json_getitem doc_json ''roots'' of
        Inl e \<Rightarrow> Inl e
      | Inr rs \<Rightarrow>
          (case json_first rs of
             Inl e \<Rightarrow> Inl e
           | Inr r \<Rightarrow> json_getitem r ''id''))"

definition json_item ::
  "('res, 'bun, 'tpl, 'var) collaborators \<Rightarrow> model_id \<Rightarrow> ID option \<Rightarrow> theme option \<Rightarrow> store \<Rightarrow>
     store \<times> (error + StandaloneEmbedJson)"
where
  "json_item env model target theme_arg st =
     (case with_OutputDocumentFor env [Model model] theme_arg False
             (\<lambda>doc s. (set_title doc [] s,
                        one_doc_json (standalone_docs_json env (set_title doc [] s) [Model model])))
             st of
        (st', Inl e) \<Rightarrow> (st', Inl e)
      | (st', Inr doc_json) \<Rightarrow>
          (case first_root_id doc_json of
             Inl e \<Rightarrow> (st', Inl e)
           | Inr found \<Rightarrow>
               (st', Inr \<lparr>target_id = target, root_id = found, doc = doc_json,
                          version = bokeh_version env\<rparr>)))"

section \<open>Definitions used to state the properties\<close>

subsection \<open>A concrete instance of the collaborators and a concrete store\<close>

text \<open>
  The theorems below are stated for all collaborators. To evaluate them at concrete
  inputs, here is one instance: serialization renders one root per requested model and
  all the roots of a requested document, into one render item; the builders and templates
  concatenate what they are given; a caller's dict subclass keeps the constructor of
  \<^verbatim>\<open>dict\<close>. The store holds a document with two roots and a theme,
  a document with one root and no theme, and a model (number 3) without a document.
\<close>

definition example_id :: "string \<Rightarrow> model_id \<Rightarrow> ID" where
  "example_id prefix m = prefix @ replicate m (CHR ''i'')"

definition example_document_of :: "store \<Rightarrow> model_like \<Rightarrow> doc_id option" where
  "example_document_of st obj =
     (case obj of Model m \<Rightarrow> model_document st m | Document d \<Rightarrow> Some d)"

definition example_doc_json :: "store \<Rightarrow> doc_id \<Rightarrow> json" where
  "example_doc_json st d =
     JDict [(''title'', JStr (title (docs st ! d))),
            (''roots'', JList (map (\<lambda>m. JDict [(''id'', JStr (example_id ''m'' m))])
                                 (roots (docs st ! d))))]"

definition example_serialize ::
  "store \<Rightarrow> model_like list \<Rightarrow> bool \<Rightarrow> error + (docs_json \<times> RenderItem list)"
where
  "example_serialize st objs suppress =
     (case objs of
        [] \<Rightarrow> Inr ([], [])
      | obj # rest \<Rightarrow>
          (case example_document_of st obj of
             None \<Rightarrow> Inl (UnsupportedRootError ''model without a document'')
           | Some d \<Rightarrow>
               Inr ([(''doc'', example_doc_json st d)],
                    [\<lparr>docid = ''doc'',
                      render_roots =
                        map (\<lambda>m. \<lparr>elementid = example_id ''e'' m, rid = example_id ''m'' m\<rparr>)
                          (resolved_items st objs)\<rparr>])))"

definition example_env :: "(unit, string list, unit, unit) collaborators" where
  "example_env =
     \<lparr>DEFAULT_TITLE = ''Bokeh Application'',
      DEFAULT_THEME = Theme ''default'',
      new_document_title = ''Bokeh Application'',
      bokeh_version = ''3.0'',
      standalone_docs_json_and_render_items = example_serialize,
      standalone_docs_json =
        (\<lambda>st objs. case example_serialize st objs False of
                      Inl e \<Rightarrow> Inl e
                    | Inr (docs_json, render_items) \<Rightarrow> Inr docs_json),
      bundle_for_objs_and_resources = (\<lambda>st objs resources. []),
      bundle_add_script = (\<lambda>bundle script. bundle @ [script]),
      bundle_scripts =
        (\<lambda>bundle tag. concat (map (\<lambda>s. if tag then ''<script>'' @ s @ ''</script>'' else s)
                                 bundle)),
      script_for_render_items =
        (\<lambda>docs_json render_items. ''embed('' @ concat (map docid render_items) @ '')''),
      ROOT_DIV_render = (\<lambda>root. ''<div id='' @ elementid root @ ''>''),
      AUTOLOAD_JS_render = (\<lambda>bundle element. concat bundle @ ''#'' @ element),
      AUTOLOAD_TAG_render = (\<lambda>src_path element. ''<script src='' @ src_path @ '' id='' @ element @ ''>''),
      wrap_in_onload = (\<lambda>js. ''onload('' @ js @ '')''),
      html_page_for_render_items =
        (\<lambda>bundle docs_json render_items page_title template template_variables.
           ''<title>'' @ page_title @ ''</title>'' @ concat bundle),
      dict_subclass_call = (\<lambda>name pairs. Inr (Mapping (DictSubclass name) pairs))\<rparr>"

definition example_store :: store where
  "example_store =
     \<lparr>docs = [\<lparr>roots = [0, 1], title = ''Report'', theme = Some (Theme ''dark'')\<rparr>,
              \<lparr>roots = [2], title = ''Other'', theme = None\<rparr>],
      model_document = (\<lambda>m. if m = 0 \<or> m = 1 then Some 0 else if m = 2 then Some 1 else None)\<rparr>"

text \<open>
  What that serialization returns for the two roots of the first document, requested as
  two models or as the document.
\<close>

definition report_json :: docs_json where
  "report_json =
     [(''doc'', JDict [(''title'', JStr ''Report''),
                       (''roots'', JList [JDict [(''id'', JStr ''m'')],
                                          JDict [(''id'', JStr ''mi'')]])])]"

definition report_item :: RenderItem where
  "report_item =
     \<lparr>docid = ''doc'',
      render_roots = [\<lparr>elementid = ''e'', rid = ''m''\<rparr>, \<lparr>elementid = ''ei'', rid = ''mi''\<rparr>]\<rparr>"

subsection \<open>Input shapes\<close>

text \<open>
  The inputs that the docstring of \<^verbatim>\<open>components\<close> and the message of
  \<^verbatim>\<open>_check_models_or_docs\<close> admit: a model, a document, a sequence whose elements are all
  models or documents, or a dict whose keys are all strings and whose values are all
  models or documents.
\<close>

definition valid_input :: "pyobj \<Rightarrow> bool" where
  "valid_input x =
     (is_model_or_doc x
      \<or> (is_Sequence x \<and> list_all is_model_or_doc (seq_items x))
      \<or> (case x of
            PDict c kvs \<Rightarrow>
              list_all is_str (map fst kvs) \<and> list_all is_model_or_doc (map snd kvs)
          | _ \<Rightarrow> False))"

text \<open>Whether a message contains a given text.\<close>

fun starts_with :: "string \<Rightarrow> string \<Rightarrow> bool" where
  "starts_with [] hay = True"
| "starts_with (c # cs) [] = False"
| "starts_with (c # cs) (h # hs) = (c = h \<and> starts_with cs hs)"

fun mentions :: "string \<Rightarrow> string \<Rightarrow> bool" where
  "mentions [] needle = starts_with needle []"
| "mentions (h # hs) needle = (starts_with needle (h # hs) \<or> mentions hs needle)"

subsection \<open>The store inside the scope\<close>

text \<open>
  The store in which the body of the \<^verbatim>\<open>with\<close> statement starts, and the document bound by
  \<^verbatim>\<open>as doc\<close>.
\<close>

definition scope_store ::
  "('res, 'bun, 'tpl, 'var) collaborators \<Rightarrow> model_like list \<Rightarrow> theme option \<Rightarrow> bool \<Rightarrow>
     store \<Rightarrow> store"
where
  "scope_store env objs apply_theme always_new st =
     snd (OutputDocumentFor_enter env objs apply_theme always_new st)"

definition resolved_document ::
  "('res, 'bun, 'tpl, 'var) collaborators \<Rightarrow> model_like list \<Rightarrow> theme option \<Rightarrow> bool \<Rightarrow>
     store \<Rightarrow> doc_id"
where
  "resolved_document env objs apply_theme always_new st =
     scope_doc (fst (OutputDocumentFor_enter env objs apply_theme always_new st))"

subsection \<open>Title precedence, as the specification words it\<close>

fun is_Document :: "model_like \<Rightarrow> bool" where
  "is_Document (Document d) = True"
| "is_Document (Model m) = False"

fun owning_document :: "store \<Rightarrow> model_like \<Rightarrow> doc_id option" where
  "owning_document st (Model m) = model_document st m"
| "owning_document st (Document d) = None"

text \<open>
  (1) the caller's title; (2) else the title of the first input that is itself a document;
  (3) else the title of the owning document of the first input model that has one;
  (4) else the default title.
\<close>

definition title_precedence ::
  "string \<Rightarrow> store \<Rightarrow> model_like list \<Rightarrow> string option \<Rightarrow> string"
where
  "title_precedence default_title st inputs title_arg =
     (case title_arg of
        Some t \<Rightarrow> t
      | None \<Rightarrow>
          (case find is_Document inputs of
             Some (Document d) \<Rightarrow> title (docs st ! d)
           | _ \<Rightarrow>
               (case find (\<lambda>p. owning_document st p \<noteq> None) inputs of
                  Some p \<Rightarrow> title (docs st ! the (owning_document st p))
                | None \<Rightarrow> default_title)))"

subsection \<open>Shapes\<close>

text \<open>
  The objects that \<^verbatim>\<open>components\<close> asks to be rendered for an input: the model itself, the
  elements of a sequence, the values of a dict.
\<close>

fun requested :: "pyobj \<Rightarrow> pyobj list" where
  "requested (Obj x) = [Obj x]"
| "requested (PDict c kvs) = map snd kvs"
| "requested x = seq_items x"

definition requested_objects :: "pyobj \<Rightarrow> model_like list" where
  "requested_objects x = model_likes (requested x)"


text \<open>What \<^verbatim>\<open>components\<close> makes of one root: a div when \<^verbatim>\<open>wrap_plot_info\<close>, else the root.\<close>

definition plot_info_for ::
  "('res, 'bun, 'tpl, 'var) collaborators \<Rightarrow> bool \<Rightarrow> RenderRoot \<Rightarrow> plot_info" where
  "plot_info_for env wrap_plot_info root =
     (if wrap_plot_info then Div (ROOT_DIV_render env root) else Root root)"

text \<open>The document that a model points to, if any, is a document of the store.\<close>

fun document_exists :: "store \<Rightarrow> model_id \<Rightarrow> bool" where
  "document_exists st m =
     (case model_document st m of None \<Rightarrow> True | Some d \<Rightarrow> d < length (docs st))"

subsection \<open>Associations, and the store at serialization\<close>

text \<open>
  The associations between models and documents that a store holds: the back-reference of
  every model and the roots of every document (so also how many documents there are).
\<close>

definition associations :: "store \<Rightarrow> (model_id \<Rightarrow> doc_id option) \<times> model_id list list" where
  "associations st = (model_document st, map roots (docs st))"

text \<open>The document that the scope would reuse, if any, is a document of the store.\<close>

fun reused_document_exists :: "store \<Rightarrow> model_like list \<Rightarrow> bool" where
  "reused_document_exists st objs =
     (case shared_container st (resolved_items st objs) of
        Some d \<Rightarrow> d < length (docs st)
      | None \<Rightarrow> True)"

text \<open>The store that \<^verbatim>\<open>json_item\<close> hands to serialization: inside the scope, title cleared.\<close>

definition json_item_store_in ::
  "('res, 'bun, 'tpl, 'var) collaborators \<Rightarrow> model_id \<Rightarrow> theme option \<Rightarrow> store \<Rightarrow> store" where
  "json_item_store_in env m theme_arg st =
     set_title (resolved_document env [Model m] theme_arg False st) []
       (scope_store env [Model m] theme_arg False st)"

text \<open>
  Theme precedence, as the specification words it: the explicit theme; else the theme that
  the reused document carries; else the default theme.
\<close>

definition chosen_theme ::
  "('res, 'bun, 'tpl, 'var) collaborators \<Rightarrow> model_like list \<Rightarrow> theme option \<Rightarrow> bool \<Rightarrow>
     store \<Rightarrow> theme"
where
  "chosen_theme env objs theme_arg always_new st =
     (case theme_arg of
        Some explicit \<Rightarrow> explicit
      | None \<Rightarrow>
          (case (if always_new then None
                 else shared_container st (resolved_items st objs)) of
             Some d \<Rightarrow>
               (case theme (docs st ! d) of
                  Some carried \<Rightarrow> carried
                | None \<Rightarrow> DEFAULT_THEME env)
           | None \<Rightarrow> DEFAULT_THEME env))"

text \<open>
  The collaborators with serialization confined to the stores that satisfy a condition:
  asked to serialize in any other store, it raises. An entry point whose outcome does not
  change under this confinement serializes only in stores that satisfy the condition.
\<close>

definition carries_theme :: "doc_id \<Rightarrow> theme \<Rightarrow> store \<Rightarrow> bool" where
  "carries_theme d t s = (theme (docs s ! d) = Some t)"

definition serializing_where ::
  "(store \<Rightarrow> bool) \<Rightarrow> ('res, 'bun, 'tpl, 'var) collaborators \<Rightarrow>
     ('res, 'bun, 'tpl, 'var) collaborators"
where
  "serializing_where allowed env =
     env\<lparr>standalone_docs_json_and_render_items :=
           (\<lambda>s objs suppress.
              if allowed s then standalone_docs_json_and_render_items env s objs suppress
              else Inl (UnsupportedRootError ''serialized in another context'')),
         standalone_docs_json :=
           (\<lambda>s objs.
              if allowed s then standalone_docs_json env s objs
              else Inl (UnsupportedRootError ''serialized in another context''))\<rparr>"

text \<open>An instance of the collaborators whose serialization always raises.\<close>

definition failing_env :: "(unit, string list, unit, unit) collaborators" where
  "failing_env =
     example_env
       \<lparr>standalone_docs_json_and_render_items :=
          (\<lambda>st objs suppress. Inl (UnsupportedRootError ''unreachable root'')),
        standalone_docs_json :=
          (\<lambda>st objs. Inl (UnsupportedRootError ''unreachable root''))\<rparr>"

section \<open>Properties\<close>

subsection \<open>Input validation\<close>

lemma is_Model_is_model_or_doc: "is_Model x \<Longrightarrow> is_model_or_doc x"
  by (cases x rule: is_Model.cases) simp_all

lemma check_models_or_docs_invalid:
  "\<not> valid_input x \<Longrightarrow> check_models_or_docs x = Inl (ValueError input_message)"
  by (simp add: valid_input_def check_models_or_docs_def Let_def)

lemma check_models_or_docs_valid:
  "valid_input x \<Longrightarrow>
   check_models_or_docs x = Inr (if is_model_or_doc x then PList [x] else x)"
  by (cases x) (auto simp add: valid_input_def check_models_or_docs_def Let_def)

text \<open>
  Claim C7, as amended. For every input of \<^verbatim>\<open>components\<close> that is not a model, a document,
  a sequence of models and documents, or a string-keyed dict of models and documents,
  \<^verbatim>\<open>components\<close> raises \<^verbatim>\<open>ValueError\<close> with the one fixed message of
  \<^verbatim>\<open>_check_models_or_docs\<close>, before the output-document scope is entered and before
  anything is serialized: the store is returned as it was, and the outcome is the same
  whatever the collaborators are. (The message is a constant: it does not depend on which
  element or key was at fault.)
\<close>

theorem components_rejects_invalid_input:
  "\<not> valid_input x \<Longrightarrow>
   components env x wrap_script wrap_plot_info theme_arg st =
     (st, Inl (ValueError input_message))"
  using is_Model_is_model_or_doc [of x]
  by (auto simp add: components_def Let_def check_models_or_docs_invalid valid_input_def)

theorem components_rejects_invalid_input_witness:
  "\<not> valid_input (PList [Obj (Model 0), PInt 5]) \<and>
   components example_env (PList [Obj (Model 0), PInt 5]) True True None example_store =
     (example_store, Inl (ValueError input_message))"
  using components_rejects_invalid_input
          [of "PList [Obj (Model 0), PInt 5]" example_env True True None example_store]
  by (simp add: valid_input_def)

text \<open>
  Claim C7 as stated fails: the error does not name the offending position or key. A dict
  whose value under the key \<^verbatim>\<open>zq\<close> is an integer is rejected with a message that does not
  contain \<^verbatim>\<open>zq\<close>, and a list whose offending element is at position 1 is rejected with
  exactly the error of a list whose offending element is at position 0.
\<close>

theorem components_error_names_no_position_counterexample:
  "components example_env (PDict Dict [(PStr ''zq'', PInt 5)]) True True None example_store =
     (example_store, Inl (ValueError input_message)) \<and>
   \<not> mentions input_message ''zq'' \<and>
   components example_env (PList [Obj (Model 0), PInt 5]) True True None example_store =
     components example_env (PList [PInt 5, Obj (Model 0)]) True True None example_store"
  by (simp add: components_def check_models_or_docs_def input_message_def)

subsection \<open>Evaluating the concrete instance\<close>

lemmas example_defs =
  example_env_def example_store_def example_serialize_def example_doc_json_def
  example_document_of_def example_id_def resolved_items_def shared_container_def
  OutputDocumentFor_enter_def OutputDocumentFor_exit_def with_OutputDocumentFor_def
  set_theme_def set_title_def theme_precedence_def scope_store_def resolved_document_def

lemmas entry_point_defs =
  components_def autoload_static_def file_html_def json_item_def check_models_or_docs_def
  one_render_item_def one_doc_json_def first_root_id_def reshape_def dict_type_call_def model_likes_def
  title_from_models_def


subsection \<open>Title precedence\<close>

lemma title_of_listed_document_find:
  "title_of_listed_document st ps =
     (case find is_Document ps of
        Some (Document d) \<Rightarrow> Some (title (docs st ! d))
      | _ \<Rightarrow> None)"
  by (induction st ps rule: title_of_listed_document.induct) simp_all

lemma title_of_model_document_find:
  "find is_Document ps = None \<Longrightarrow>
   title_of_model_document st ps =
     (case find (\<lambda>p. owning_document st p \<noteq> None) ps of
        Some p \<Rightarrow> Some (title (docs st ! the (owning_document st p)))
      | None \<Rightarrow> None)"
  by (induction st ps rule: title_of_model_document.induct)
     (auto split: option.splits if_splits)

lemma find_is_Document_cases:
  "find is_Document ps = None \<or> (\<exists>d. find is_Document ps = Some (Document d))"
proof (cases "find is_Document ps")
  case None
  then show ?thesis by simp
next
  case (Some p)
  then have "is_Document p" by (auto simp add: find_Some_iff)
  then obtain d where "p = Document d" by (cases p) simp_all
  with Some show ?thesis by simp
qed

lemma title_from_models_precedence:
  "title_from_models env st ps title_arg = title_precedence (DEFAULT_TITLE env) st ps title_arg"
proof (cases title_arg)
  case (Some t)
  then show ?thesis by (simp add: title_from_models_def title_precedence_def)
next
  case None
  from find_is_Document_cases [of ps] show ?thesis
  proof
    assume nodoc: "find is_Document ps = None"
    then show ?thesis
      using None title_of_model_document_find [OF nodoc, of st]
      by (simp add: title_from_models_def title_precedence_def title_of_listed_document_find
            split: option.splits)
  next
    assume "\<exists>d. find is_Document ps = Some (Document d)"
    then obtain d where "find is_Document ps = Some (Document d)" ..
    then show ?thesis
      using None
      by (simp add: title_from_models_def title_precedence_def title_of_listed_document_find)
  qed
qed

lemma title_set_theme: "title (docs (set_theme d th st) ! k) = title (docs st ! k)"
  by (cases "d < length (docs st)")
     (simp_all add: set_theme_def list_update_beyond nth_list_update)

lemma title_precedence_set_theme:
  "title_precedence default_title (set_theme d th st) inputs title_arg =
     title_precedence default_title st inputs title_arg"
proof -
  have o: "\<And>p. owning_document (set_theme d th st) p = owning_document st p"
    by (case_tac p) (simp_all add: set_theme_def)
  show ?thesis
    by (simp add: title_precedence_def title_set_theme o
          split: option.splits model_like.splits)
qed

lemma scope_store_reused:
  "\<not> always_new \<Longrightarrow> shared_container st (resolved_items st inputs) = Some d \<Longrightarrow>
   \<exists>th. scope_store env inputs theme_arg always_new st = set_theme d th st"
  by (auto simp add: scope_store_def OutputDocumentFor_enter_def Let_def)

text \<open>
  Claim C3, as amended. Title precedence in \<^verbatim>\<open>file_html\<close>. The precedence runs over the
  sequence that \<^verbatim>\<open>file_html\<close> resolves its argument to (a model alone, the roots of a
  document passed directly, or the sequence itself) and reads titles and back-references
  where the source reads them, inside the output-document scope. Whenever serialization
  succeeds, the page is rendered with: a caller-supplied title that is not \<^verbatim>\<open>None\<close>,
  whatever the documents hold; otherwise the title of the first element that is itself a
  document; otherwise the title of the document that the first model that has one points
  to inside the scope; otherwise \<^verbatim>\<open>DEFAULT_TITLE\<close>. When the scope reuses the document that
  the requested models share, these are the caller's own documents and titles.
\<close>

theorem file_html_title_in_scope:
  assumes "inputs = (case models of
                       One (Model m) \<Rightarrow> [Model m]
                     | One (Document d) \<Rightarrow> map Model (roots (docs st ! d))
                     | Seq xs \<Rightarrow> xs)"
      and "standalone_docs_json_and_render_items env
             (scope_store env inputs theme_arg always_new st) inputs suppress =
               Inr (docs_json, render_items)"
  shows "snd (file_html env models resources title_arg template template_variables theme_arg
                suppress always_new st) =
         Inr (html_page_for_render_items env
                (bundle_for_objs_and_resources env
                   (scope_store env inputs theme_arg always_new st)
                   (Some [resolved_document env inputs theme_arg always_new st])
                   resources)
                docs_json render_items
                (title_precedence (DEFAULT_TITLE env)
                   (scope_store env inputs theme_arg always_new st) inputs title_arg)
                template template_variables) \<and>
         (\<forall>t. title_arg = Some t \<longrightarrow>
            title_precedence (DEFAULT_TITLE env)
              (scope_store env inputs theme_arg always_new st) inputs title_arg = t) \<and>
         (\<forall>d. \<not> always_new \<and> shared_container st (resolved_items st inputs) = Some d \<longrightarrow>
            title_precedence (DEFAULT_TITLE env)
              (scope_store env inputs theme_arg always_new st) inputs title_arg =
            title_precedence (DEFAULT_TITLE env) st inputs title_arg)"
proof (intro conjI allI impI)
  have ms: "models_seq st models = inputs"
  proof (cases models)
    case (One obj)
    with assms(1) show ?thesis by (cases obj) simp_all
  next
    case (Seq xs)
    with assms(1) show ?thesis by simp
  qed
  obtain sc st_in where
    "OutputDocumentFor_enter env inputs theme_arg always_new st = (sc, st_in)"
    by (cases "OutputDocumentFor_enter env inputs theme_arg always_new st")
  with assms(2) show "snd (file_html env models resources title_arg template
                template_variables theme_arg suppress always_new st) =
         Inr (html_page_for_render_items env
                (bundle_for_objs_and_resources env
                   (scope_store env inputs theme_arg always_new st)
                   (Some [resolved_document env inputs theme_arg always_new st])
                   resources)
                docs_json render_items
                (title_precedence (DEFAULT_TITLE env)
                   (scope_store env inputs theme_arg always_new st) inputs title_arg)
                template template_variables)"
    by (simp add: file_html_def ms with_OutputDocumentFor_def scope_store_def
          resolved_document_def title_from_models_precedence Let_def)
next
  fix t
  assume "title_arg = Some t"
  then show "title_precedence (DEFAULT_TITLE env)
              (scope_store env inputs theme_arg always_new st) inputs title_arg = t"
    by (simp add: title_precedence_def)
next
  fix d
  assume "\<not> always_new \<and> shared_container st (resolved_items st inputs) = Some d"
  then obtain th where "scope_store env inputs theme_arg always_new st = set_theme d th st"
    using scope_store_reused [of always_new st inputs d env theme_arg] by blast
  then show "title_precedence (DEFAULT_TITLE env)
              (scope_store env inputs theme_arg always_new st) inputs title_arg =
            title_precedence (DEFAULT_TITLE env) st inputs title_arg"
    by (simp add: title_precedence_set_theme)
qed

theorem file_html_title_in_scope_witness:
  "standalone_docs_json_and_render_items example_env
     (scope_store example_env [Model 0, Model 1] None False example_store)
     [Model 0, Model 1] False = Inr (report_json, [report_item]) \<and>
   snd (file_html example_env (Seq [Model 0, Model 1]) None None () () None False False
          example_store) = Inr ''<title>Report</title>'' \<and>
   snd (file_html example_env (Seq [Model 0, Model 1]) None (Some ''Foo'') () () None False False
          example_store) = Inr ''<title>Foo</title>'' \<and>
   snd (file_html example_env (One (Document 0)) None None () () None False False
          example_store) = Inr ''<title>Report</title>''"
  using file_html_title_in_scope
          [where env = example_env and st = example_store and models = "Seq [Model 0, Model 1]"
             and inputs = "[Model 0, Model 1]"
             and theme_arg = None and always_new = False and suppress = False
             and docs_json = report_json and render_items = "[report_item]"
             and resources = None and title_arg = None and template = "()"
             and template_variables = "()"]
        file_html_title_in_scope
          [where env = example_env and st = example_store and models = "Seq [Model 0, Model 1]"
             and inputs = "[Model 0, Model 1]"
             and theme_arg = None and always_new = False and suppress = False
             and docs_json = report_json and render_items = "[report_item]"
             and resources = None and title_arg = "Some ''Foo''" and template = "()"
             and template_variables = "()"]
        file_html_title_in_scope
          [where env = example_env and st = example_store and models = "One (Document 0)"
             and inputs = "[Model 0, Model 1]"
             and theme_arg = None and always_new = False and suppress = False
             and docs_json = report_json and render_items = "[report_item]"
             and resources = None and title_arg = None and template = "()"
             and template_variables = "()"]
  by (simp add: example_defs report_json_def report_item_def title_precedence_def Let_def
        eval_nat_numeral)

text \<open>
  Claim C3 as stated fails. Models 0 and 2 belong to different documents, so the scope
  attaches them to a new document: the page gets the title of that document, not
  \<^verbatim>\<open>Report\<close>, the title of the document of the first model, which the precedence over the
  caller's objects gives. And a document titled \<^verbatim>\<open>Report\<close> passed directly with
  \<^verbatim>\<open>_always_new\<close> is replaced by its roots, which point to the new document inside the
  scope: the page does not get the title of the document that was passed.
\<close>

theorem file_html_title_of_caller_document_counterexample:
  "title_precedence (DEFAULT_TITLE example_env) example_store [Model 0, Model 2] None =
     ''Report'' \<and>
   snd (file_html example_env (Seq [Model 0, Model 2]) None None () () None False False
          example_store) = Inr ''<title>Bokeh Application</title>'' \<and>
   title (docs example_store ! 0) = ''Report'' \<and>
   snd (file_html example_env (One (Document 0)) None None () () None False True
          example_store) = Inr ''<title>Bokeh Application</title>''"
  by (simp add: entry_point_defs title_of_listed_document_find example_defs
        title_precedence_def Let_def eval_nat_numeral)

subsection \<open>What an invocation leaves in the store\<close>

lemma map_of_zip_map_self:
  "map_of (zip ms (map f ms)) m = (if m \<in> set ms then Some (f m) else None)"
  by (induction ms) auto

lemma set_theme_restore:
  "set_theme d (theme (docs st ! d)) (set_theme d th st) = st"
  by (cases "d < length (docs st)") (simp_all add: set_theme_def list_update_beyond)

lemma exit_enter:
  "OutputDocumentFor_enter env objs apply_theme always_new st = (sc, st_in) \<Longrightarrow>
   OutputDocumentFor_exit sc st_in = st"
  by (auto simp add: OutputDocumentFor_enter_def OutputDocumentFor_exit_def Let_def
        set_theme_restore map_of_zip_map_self fun_eq_iff
      split: option.splits if_splits)

lemma with_OutputDocumentFor_pure:
  "fst (with_OutputDocumentFor env objs apply_theme always_new (\<lambda>d s. (s, f d s)) st) = st"
  by (cases "OutputDocumentFor_enter env objs apply_theme always_new st")
     (simp add: with_OutputDocumentFor_def exit_enter)

lemma autoload_static_store:
  "fst (autoload_static env model resources script_path st) = st"
proof (cases model)
  case (Obj obj)
  let ?models = "case obj of Model m \<Rightarrow> [Model m]
                 | Document d \<Rightarrow> map Model (roots (docs st ! d))"
  let ?w = "with_OutputDocumentFor env ?models None False
     (\<lambda>doc s. (s, one_render_item (standalone_docs_json_and_render_items env s [obj] False))) st"
  have "fst ?w = st" by (rule with_OutputDocumentFor_pure)
  then show ?thesis using Obj
    by (cases ?w) (auto simp add: autoload_static_def Let_def split: sum.splits prod.splits)
qed (simp_all add: autoload_static_def)

lemma components_store:
  "fst (components env x wrap_script wrap_plot_info theme_arg st) = st"
proof (cases "check_models_or_docs (if is_Model x then PList [x] else x)")
  case (Inl e)
  then show ?thesis by (simp add: components_def Let_def)
next
  case (Inr models2)
  let ?models = "model_likes (case models2 of PDict c kvs \<Rightarrow> map snd kvs
                              | _ \<Rightarrow> seq_items models2)"
  let ?w = "with_OutputDocumentFor env ?models theme_arg False
     (\<lambda>doc s. (s, one_render_item
                    (standalone_docs_json_and_render_items env s ?models False))) st"
  have "fst ?w = st" by (rule with_OutputDocumentFor_pure)
  then show ?thesis using Inr
    by (cases ?w) (auto simp add: components_def Let_def split: sum.splits prod.splits)
qed

lemma file_html_store:
  "fst (file_html env models resources title_arg template template_variables theme_arg
          suppress always_new st) = st"
  unfolding file_html_def by (rule with_OutputDocumentFor_pure)

lemma set_title_set_theme:
  "set_theme d th' (set_title d t (set_theme d th st)) = set_theme d th' (set_title d t st)"
  by (cases "d < length (docs st)")
     (simp_all add: set_theme_def set_title_def list_update_beyond)

lemma theme_restore_after_title:
  "set_theme d (theme (docs st ! d)) (set_title d t st) = set_title d t st"
  by (cases "d < length (docs st)")
     (simp_all add: set_theme_def set_title_def list_update_beyond)

lemma json_item_store:
  "fst (json_item env model target theme_arg st) =
     (case shared_container st [model] of
        Some d \<Rightarrow> set_title d [] st
      | None \<Rightarrow> st)"
proof -
  let ?body = "\<lambda>doc s. (set_title doc [] s,
                  one_doc_json (standalone_docs_json env (set_title doc [] s) [Model model]))"
  have "fst (with_OutputDocumentFor env [Model model] theme_arg False ?body st) =
          (case shared_container st [model] of Some d \<Rightarrow> set_title d [] st | None \<Rightarrow> st)"
  proof (cases "shared_container st [model]")
    case None
    then show ?thesis
      by (simp add: with_OutputDocumentFor_def OutputDocumentFor_enter_def
            OutputDocumentFor_exit_def resolved_items_def Let_def set_title_def fun_eq_iff)
  next
    case (Some d)
    then show ?thesis
      by (simp add: with_OutputDocumentFor_def OutputDocumentFor_enter_def
            OutputDocumentFor_exit_def resolved_items_def Let_def set_title_set_theme
            theme_restore_after_title)
  qed
  then show ?thesis
    by (cases "with_OutputDocumentFor env [Model model] theme_arg False ?body st")
       (auto simp add: json_item_def split: sum.splits)
qed

subsection \<open>\<^verbatim>\<open>json_item\<close>\<close>

lemma resolved_document_in_scope:
  "document_exists st model \<Longrightarrow>
   resolved_document env [Model model] theme_arg False st
     < length (docs (scope_store env [Model model] theme_arg False st))"
  by (auto simp add: resolved_document_def scope_store_def OutputDocumentFor_enter_def
        resolved_items_def shared_container_def set_theme_def Let_def
      split: option.splits list.splits)

text \<open>
  Claim C4. \<^verbatim>\<open>json_item\<close>, for one model (whose document, if it has one, is in the store):
  the title of the resolved document is empty when the document is serialized; and when
  serialization yields one document tree whose first root carries an id, the record
  returned has the caller's target (\<^verbatim>\<open>None\<close> when omitted) as \<open>target_id\<close>, the id of the
  first root of the serialized tree as \<open>root_id\<close>, the tree as \<open>doc\<close>, and the version
  string as \<open>version\<close>.
\<close>

theorem json_item_record:
  assumes "document_exists st model"
      and "standalone_docs_json env
             (set_title (resolved_document env [Model model] theme_arg False st) []
                (scope_store env [Model model] theme_arg False st))
             [Model model] = Inr [(key, doc_json)]"
      and "json_getitem doc_json ''roots'' = Inr (JList (first_root # more_roots))"
      and "json_getitem first_root ''id'' = Inr generated_id"
  shows "title (docs (set_title (resolved_document env [Model model] theme_arg False st) []
                        (scope_store env [Model model] theme_arg False st))
                ! resolved_document env [Model model] theme_arg False st) = [] \<and>
         snd (json_item env model target theme_arg st) =
           Inr \<lparr>target_id = target, root_id = generated_id, doc = doc_json,
                version = bokeh_version env\<rparr>"
proof
  show "title (docs (set_title (resolved_document env [Model model] theme_arg False st) []
                        (scope_store env [Model model] theme_arg False st))
                ! resolved_document env [Model model] theme_arg False st) = []"
    using resolved_document_in_scope [OF assms(1), of env theme_arg]
    by (simp add: set_title_def)
next
  obtain sc st_in where
    "OutputDocumentFor_enter env [Model model] theme_arg False st = (sc, st_in)"
    by (cases "OutputDocumentFor_enter env [Model model] theme_arg False st")
  with assms(2-4)
  show "snd (json_item env model target theme_arg st) =
           Inr \<lparr>target_id = target, root_id = generated_id, doc = doc_json,
                version = bokeh_version env\<rparr>"
    by (simp add: json_item_def with_OutputDocumentFor_def scope_store_def
          resolved_document_def one_doc_json_def first_root_id_def)
qed

theorem json_item_record_witness:
  "document_exists example_store 2 \<and>
   standalone_docs_json example_env
     (set_title (resolved_document example_env [Model 2] None False example_store) []
        (scope_store example_env [Model 2] None False example_store))
     [Model 2] =
       Inr [(''doc'', JDict [(''title'', JStr ''''),
                             (''roots'', JList [JDict [(''id'', JStr ''mii'')]])])] \<and>
   snd (json_item example_env 2 (Some ''myplot'') None example_store) =
     Inr \<lparr>target_id = Some ''myplot'', root_id = JStr ''mii'',
          doc = JDict [(''title'', JStr ''''), (''roots'', JList [JDict [(''id'', JStr ''mii'')]])],
          version = ''3.0''\<rparr>"
  using json_item_record
          [of example_store 2 example_env None "''doc''"
              "JDict [(''title'', JStr ''''), (''roots'', JList [JDict [(''id'', JStr ''mii'')]])]"
              "JDict [(''id'', JStr ''mii'')]" "[]" "JStr ''mii''" "Some ''myplot''"]
  by (simp add: example_defs Let_def eval_nat_numeral)

subsection \<open>The shape of what \<^verbatim>\<open>components\<close> returns\<close>

lemma model_likes_length:
  "list_all is_model_or_doc xs \<Longrightarrow> length (model_likes xs) = length xs"
proof (induction xs)
  case Nil
  then show ?case by (simp add: model_likes_def)
next
  case (Cons x xs)
  then show ?case by (cases x) (simp_all add: model_likes_def)
qed

lemma results_plot_info_for:
  "(if wrap_plot_info then map (\<lambda>root. Div (ROOT_DIV_render env root)) rs else map Root rs) =
     map (plot_info_for env wrap_plot_info) rs"
  by (simp add: plot_info_for_def)

text \<open>What \<^verbatim>\<open>components\<close> does once its input has passed the check.\<close>

lemma components_after_check:
  assumes "check_models_or_docs (if is_Model x then PList [x] else x) = Inr models2"
      and "standalone_docs_json_and_render_items env
             (scope_store env
                (model_likes (case models2 of PDict c kvs \<Rightarrow> map snd kvs | _ \<Rightarrow> seq_items models2))
                theme_arg False st)
             (model_likes (case models2 of PDict c kvs \<Rightarrow> map snd kvs | _ \<Rightarrow> seq_items models2))
             False = Inr (docs_json, [render_item])"
  shows "components env x wrap_script wrap_plot_info theme_arg st =
           (st,
            case reshape env (is_Model x)
                   (case models2 of PDict c kvs \<Rightarrow> Some (map fst kvs) | _ \<Rightarrow> None)
                   (case models2 of PDict c kvs \<Rightarrow> c | _ \<Rightarrow> Dict)
                   (map (plot_info_for env wrap_plot_info) (render_roots render_item)) of
              Inl e \<Rightarrow> Inl e
            | Inr result \<Rightarrow>
                Inr (bundle_scripts env
                       (bundle_add_script env (bundle_for_objs_and_resources env st None None)
                          (script_for_render_items env docs_json [render_item]))
                       wrap_script, result))"
proof -
  let ?models = "model_likes (case models2 of PDict c kvs \<Rightarrow> map snd kvs | _ \<Rightarrow> seq_items models2)"
  obtain sc st_in where e:
    "OutputDocumentFor_enter env ?models theme_arg False st = (sc, st_in)"
    by (cases "OutputDocumentFor_enter env ?models theme_arg False st")
  have x: "OutputDocumentFor_exit sc st_in = st" using e by (rule exit_enter)
  from assms e x show ?thesis
    by (simp add: components_def Let_def with_OutputDocumentFor_def scope_store_def
          one_render_item_def results_plot_info_for split: sum.splits)
qed

lemma requested_after_check:
  "check_models_or_docs (if is_Model x then PList [x] else x) = Inr models2 \<Longrightarrow>
   model_likes (case models2 of PDict c kvs \<Rightarrow> map snd kvs | _ \<Rightarrow> seq_items models2) =
     requested_objects x"
  by (cases x)
     (auto simp add: check_models_or_docs_def requested_objects_def Let_def
        split: if_splits)






text \<open>
  Claim C10. A document passed directly to \<^verbatim>\<open>components\<close> is not recorded as a single
  object: when serialization yields one render item with one root per root of the
  document, the second element returned is a tuple with one per-root result for every
  root of that document, never one unwrapped value (a one-root document yields a tuple of
  length one).
\<close>

theorem components_single_document_not_unwrapped:
  assumes "standalone_docs_json_and_render_items env
             (scope_store env [Document d] theme_arg False st) [Document d] False =
               Inr (docs_json, [render_item])"
      and "length (render_roots render_item) = length (roots (docs st ! d))"
  shows "\<exists>script results.
           components env (Obj (Document d)) wrap_script wrap_plot_info theme_arg st =
             (st, Inr (script, Tuple results)) \<and>
           results = map (plot_info_for env wrap_plot_info) (render_roots render_item) \<and>
           length results = length (roots (docs st ! d))"
proof -
  have chk: "check_models_or_docs
               (if is_Model (Obj (Document d)) then PList [Obj (Document d)] else Obj (Document d)) =
             Inr (PList [Obj (Document d)])"
    by (simp add: check_models_or_docs_def)
  show ?thesis
    using components_after_check [OF chk, of env theme_arg st docs_json render_item
            wrap_script wrap_plot_info] assms
    by (simp add: model_likes_def reshape_def)
qed


theorem components_single_document_not_unwrapped_witness:
  "standalone_docs_json_and_render_items example_env
     (scope_store example_env [Document 0] None False example_store) [Document 0] False =
       Inr (report_json, [report_item]) \<and>
   length (roots (docs example_store ! 0)) = 2 \<and>
   components example_env (Obj (Document 0)) True True None example_store =
     (example_store,
      Inr (''<script>embed(doc)</script>'', Tuple [Div ''<div id=e>'', Div ''<div id=ei>'']))"
  using components_single_document_not_unwrapped
          [where d = 0 and env = example_env and theme_arg = None and st = example_store
             and docs_json = report_json and render_item = report_item
             and wrap_script = True and wrap_plot_info = True]
  by (simp add: entry_point_defs example_defs report_json_def report_item_def
        plot_info_for_def Let_def eval_nat_numeral)

subsection \<open>\<^verbatim>\<open>autoload_static\<close>\<close>

text \<open>
  Claim C2, as amended. \<^verbatim>\<open>autoload_static\<close> raises \<^verbatim>\<open>ValueError\<close>, leaving the store alone,
  for an input that is neither a model nor a document. For a model or a document, of
  however many roots, whenever serialization of the one-element list holding it yields
  exactly one render item with at least one root, the call succeeds and returns the pair
  (js, tag) built from the element id of the first root of that render item.
\<close>

theorem autoload_static_outcome:
  "(\<not> is_model_or_doc model \<longrightarrow>
      autoload_static env model resources script_path st =
        (st, Inl (ValueError ''autoload_static expects a single Model or Document''))) \<and>
   (model = Obj obj \<and>
    standalone_docs_json_and_render_items env
      (scope_store env (models_seq st (One obj)) None False st) [obj] False =
        Inr (docs_json, [render_item]) \<and>
    render_roots render_item = first_root # more_roots \<longrightarrow>
      autoload_static env model resources script_path st =
        (st,
         Inr (wrap_in_onload env
                (AUTOLOAD_JS_render env
                   (bundle_add_script env
                      (bundle_for_objs_and_resources env st None (Some resources))
                      (script_for_render_items env docs_json [render_item]))
                   (elementid first_root)),
              AUTOLOAD_TAG_render env script_path (elementid first_root))))"
proof (intro conjI impI)
  assume "\<not> is_model_or_doc model"
  then show "autoload_static env model resources script_path st =
        (st, Inl (ValueError ''autoload_static expects a single Model or Document''))"
    by (cases model) (simp_all add: autoload_static_def)
next
  assume a: "model = Obj obj \<and>
    standalone_docs_json_and_render_items env
      (scope_store env (models_seq st (One obj)) None False st) [obj] False =
        Inr (docs_json, [render_item]) \<and>
    render_roots render_item = first_root # more_roots"
  have ms: "(case obj of Model m \<Rightarrow> [Model m]
             | Document d \<Rightarrow> map Model (roots (docs st ! d))) = models_seq st (One obj)"
    by (cases obj) simp_all
  obtain sc st_in where e:
    "OutputDocumentFor_enter env (models_seq st (One obj)) None False st = (sc, st_in)"
    by (cases "OutputDocumentFor_enter env (models_seq st (One obj)) None False st")
  have x: "OutputDocumentFor_exit sc st_in = st" using e by (rule exit_enter)
  from a e x show "autoload_static env model resources script_path st =
        (st,
         Inr (wrap_in_onload env
                (AUTOLOAD_JS_render env
                   (bundle_add_script env
                      (bundle_for_objs_and_resources env st None (Some resources))
                      (script_for_render_items env docs_json [render_item]))
                   (elementid first_root)),
              AUTOLOAD_TAG_render env script_path (elementid first_root)))"
    by (simp add: autoload_static_def ms Let_def with_OutputDocumentFor_def scope_store_def
          one_render_item_def)
qed

theorem autoload_static_outcome_witness:
  "\<not> is_model_or_doc (PInt 5) \<and>
   autoload_static example_env (PInt 5) () ''plot.js'' example_store =
     (example_store, Inl (ValueError ''autoload_static expects a single Model or Document'')) \<and>
   autoload_static example_env (Obj (Model 2)) () ''plot.js'' example_store =
     (example_store, Inr (''onload(embed(doc)#eii)'', ''<script src=plot.js id=eii>''))"
  using autoload_static_outcome
          [where model = "PInt 5" and env = example_env and resources = "()"
             and script_path = "''plot.js''" and st = example_store]
        autoload_static_outcome
          [where model = "Obj (Model 2)" and obj = "Model 2" and env = example_env
             and resources = "()" and script_path = "''plot.js''" and st = example_store
             and docs_json = "[(''doc'', JDict [(''title'', JStr ''Other''),
                                 (''roots'', JList [JDict [(''id'', JStr ''mii'')]])])]"
             and render_item = "\<lparr>docid = ''doc'',
                 render_roots = [\<lparr>elementid = ''eii'', rid = ''mii''\<rparr>]\<rparr>"
             and first_root = "\<lparr>elementid = ''eii'', rid = ''mii''\<rparr>" and more_roots = "[]"]
  by (simp add: example_defs Let_def eval_nat_numeral)

text \<open>
  Claim C2 as stated fails: with a document of two roots, \<^verbatim>\<open>autoload_static\<close> raises
  nothing. One requested object is serialized into one render item, the unpacking of the
  one-element list succeeds, and the tag carries the element id of the first root.
\<close>

theorem autoload_static_multi_root_counterexample:
  "length (roots (docs example_store ! 0)) = 2 \<and>
   autoload_static example_env (Obj (Document 0)) () ''plot.js'' example_store =
     (example_store, Inr (''onload(embed(doc)#e)'', ''<script src=plot.js id=e>''))"
  by (simp add: autoload_static_def one_render_item_def example_defs Let_def eval_nat_numeral)

subsection \<open>Cleanup\<close>

lemma map_update_unchanged:
  "f y = f (xs ! d) \<Longrightarrow> map f (xs[d := y]) = map f xs"
  by (induction xs arbitrary: d) (auto split: nat.splits)

lemma associations_set_title: "associations (set_title d t st) = associations st"
  by (simp add: associations_def set_title_def map_update_unchanged)

text \<open>
  Claim C5. Cleanup guarantee: after any of the four entry points has returned or raised,
  whatever the collaborators do (serialization that raises included), the back-reference
  of every model and the roots of every document are exactly what they were before the
  call, and no transient document is left in the store.
\<close>

theorem cleanup_guarantee:
  "associations (fst (autoload_static env model resources script_path st)) = associations st \<and>
   associations (fst (components env x wrap_script wrap_plot_info theme_arg st)) =
     associations st \<and>
   associations (fst (file_html env models resources' title_arg template template_variables
                        theme_arg' suppress always_new st)) = associations st \<and>
   associations (fst (json_item env m target theme_arg'' st)) = associations st"
  by (simp add: autoload_static_store components_store file_html_store json_item_store
        associations_set_title split: option.splits)

theorem cleanup_guarantee_witness:
  "snd (components failing_env (PList [Obj (Model 0), Obj (Model 2)]) True True None
          example_store) = Inl (UnsupportedRootError ''unreachable root'') \<and>
   associations (fst (components failing_env (PList [Obj (Model 0), Obj (Model 2)]) True True
                        None example_store)) = associations example_store"
  using cleanup_guarantee
          [where env = failing_env and x = "PList [Obj (Model 0), Obj (Model 2)]"
             and wrap_script = True and wrap_plot_info = True and theme_arg = None
             and st = example_store]
  by (simp add: failing_env_def entry_point_defs example_defs Let_def eval_nat_numeral)

subsection \<open>Titles\<close>

lemma title_set_title:
  "map title (docs (set_title d t st)) = (map title (docs st))[d := t]"
  by (cases "d < length (docs st)")
     (simp_all add: set_title_def map_update list_update_beyond)

text \<open>
  Claim C6, as amended. After \<^verbatim>\<open>autoload_static\<close>, \<^verbatim>\<open>components\<close> and \<^verbatim>\<open>file_html\<close> the title
  of every document, a reused one included, is what it was before the call. After
  \<^verbatim>\<open>json_item\<close> the titles are what they were, except that the title of the document the
  scope reused, if it reused one, is the empty string that \<^verbatim>\<open>json_item\<close> assigned.
\<close>

theorem titles_after_invocation:
  "map title (docs (fst (autoload_static env model resources script_path st))) =
     map title (docs st) \<and>
   map title (docs (fst (components env x wrap_script wrap_plot_info theme_arg st))) =
     map title (docs st) \<and>
   map title (docs (fst (file_html env models resources' title_arg template template_variables
                           theme_arg' suppress always_new st))) = map title (docs st) \<and>
   map title (docs (fst (json_item env m target theme_arg'' st))) =
     (case shared_container st [m] of
        Some d \<Rightarrow> (map title (docs st))[d := []]
      | None \<Rightarrow> map title (docs st))"
  by (simp add: autoload_static_store components_store file_html_store json_item_store
        title_set_title split: option.splits)

theorem titles_after_invocation_witness:
  "map title (docs (fst (json_item example_env 2 None None example_store))) = [''Report'', []] \<and>
   map title (docs (fst (json_item example_env 3 None None example_store))) =
     [''Report'', ''Other'']"
  using titles_after_invocation
          [where env = example_env and m = 2 and target = None and theme_arg'' = None
             and st = example_store]
        titles_after_invocation
          [where env = example_env and m = 3 and target = None and theme_arg'' = None
             and st = example_store]
  by (simp add: example_defs Let_def eval_nat_numeral)

text \<open>
  Claim C6 as stated fails for \<^verbatim>\<open>json_item\<close>: model 2 is the one root of a document titled
  \<^verbatim>\<open>Other\<close>; the scope reuses that document, \<^verbatim>\<open>json_item\<close> assigns the empty string to its
  title, and nothing puts the title back.
\<close>

theorem json_item_reused_title_counterexample:
  "shared_container example_store (resolved_items example_store [Model 2]) = Some 1 \<and>
   resolved_document example_env [Model 2] None False example_store = 1 \<and>
   title (docs example_store ! 1) = ''Other'' \<and>
   title (docs (fst (json_item example_env 2 None None example_store)) ! 1) = []"
  by (simp add: json_item_store example_defs Let_def eval_nat_numeral)

subsection \<open>Theme precedence\<close>

lemma scope_store_theme:
  "reused_document_exists st objs \<Longrightarrow>
   carries_theme (resolved_document env objs theme_arg always_new st)
     (chosen_theme env objs theme_arg always_new st)
     (scope_store env objs theme_arg always_new st)"
  by (auto simp add: carries_theme_def chosen_theme_def scope_store_def resolved_document_def
        OutputDocumentFor_enter_def set_theme_def theme_precedence_def Let_def
      split: option.splits)

lemma carries_theme_set_title:
  "carries_theme d t (set_title d' title' s) = carries_theme d t s"
  by (cases "d' < length (docs s)")
     (auto simp add: carries_theme_def set_title_def list_update_beyond nth_list_update)

lemma serializing_where_other_fields:
  "DEFAULT_TITLE (serializing_where allowed env) = DEFAULT_TITLE env"
  "DEFAULT_THEME (serializing_where allowed env) = DEFAULT_THEME env"
  "new_document_title (serializing_where allowed env) = new_document_title env"
  "bokeh_version (serializing_where allowed env) = bokeh_version env"
  "bundle_for_objs_and_resources (serializing_where allowed env) =
     bundle_for_objs_and_resources env"
  "bundle_add_script (serializing_where allowed env) = bundle_add_script env"
  "bundle_scripts (serializing_where allowed env) = bundle_scripts env"
  "script_for_render_items (serializing_where allowed env) = script_for_render_items env"
  "ROOT_DIV_render (serializing_where allowed env) = ROOT_DIV_render env"
  "html_page_for_render_items (serializing_where allowed env) = html_page_for_render_items env"
  "dict_subclass_call (serializing_where allowed env) = dict_subclass_call env"
  by (simp_all add: serializing_where_def)

lemma serializing_where_allowed:
  "allowed s \<Longrightarrow>
   standalone_docs_json_and_render_items (serializing_where allowed env) s =
     standalone_docs_json_and_render_items env s"
  "allowed s \<Longrightarrow>
   standalone_docs_json (serializing_where allowed env) s = standalone_docs_json env s"
  by (simp_all add: serializing_where_def fun_eq_iff)

lemma enter_serializing_where:
  "OutputDocumentFor_enter (serializing_where allowed env) objs theme_arg always_new st =
     OutputDocumentFor_enter env objs theme_arg always_new st"
  unfolding OutputDocumentFor_enter_def serializing_where_other_fields by (rule refl)

lemma title_from_models_serializing_where:
  "title_from_models (serializing_where allowed env) = title_from_models env"
  unfolding title_from_models_def serializing_where_other_fields by (rule refl)

lemma dict_type_call_serializing_where:
  "dict_type_call (serializing_where allowed env) = dict_type_call env"
  unfolding dict_type_call_def serializing_where_other_fields by (rule refl)

lemma reshape_serializing_where:
  "reshape (serializing_where allowed env) = reshape env"
  unfolding reshape_def dict_type_call_serializing_where by (rule refl)

lemma file_html_serializing_where:
  assumes "allowed (scope_store env (models_seq st models) theme_arg always_new st)"
  shows "file_html (serializing_where allowed env) models resources title_arg template
           template_variables theme_arg suppress always_new st =
         file_html env models resources title_arg template template_variables theme_arg
           suppress always_new st"
proof -
  obtain sc st_in where e:
    "OutputDocumentFor_enter env (models_seq st models) theme_arg always_new st = (sc, st_in)"
    by (cases "OutputDocumentFor_enter env (models_seq st models) theme_arg always_new st")
  with assms have a: "allowed st_in" by (simp add: scope_store_def)
  show ?thesis
    using e a
    by (simp add: file_html_def with_OutputDocumentFor_def enter_serializing_where
          title_from_models_serializing_where serializing_where_other_fields
          serializing_where_allowed Let_def split: sum.splits prod.splits)
qed

lemma json_item_serializing_where:
  assumes "allowed (json_item_store_in env m theme_arg st)"
  shows "json_item (serializing_where allowed env) m target theme_arg st =
         json_item env m target theme_arg st"
proof -
  obtain sc st_in where e:
    "OutputDocumentFor_enter env [Model m] theme_arg False st = (sc, st_in)"
    by (cases "OutputDocumentFor_enter env [Model m] theme_arg False st")
  with assms have a: "allowed (set_title (scope_doc sc) [] st_in)"
    by (simp add: json_item_store_in_def scope_store_def resolved_document_def)
  show ?thesis
    using e a
    by (simp add: json_item_def with_OutputDocumentFor_def enter_serializing_where
          serializing_where_other_fields serializing_where_allowed
          split: sum.splits prod.splits)
qed

lemma components_serializing_where:
  assumes "allowed (scope_store env (requested_objects x) theme_arg False st)"
  shows "components (serializing_where allowed env) x wrap_script wrap_plot_info theme_arg st =
         components env x wrap_script wrap_plot_info theme_arg st"
proof (cases "check_models_or_docs (if is_Model x then PList [x] else x)")
  case (Inl e)
  then show ?thesis by (simp add: components_def Let_def)
next
  case (Inr models2)
  let ?models = "model_likes (case models2 of PDict c kvs \<Rightarrow> map snd kvs
                              | _ \<Rightarrow> seq_items models2)"
  have r: "?models = requested_objects x" using Inr by (rule requested_after_check)
  obtain sc st_in where e:
    "OutputDocumentFor_enter env ?models theme_arg False st = (sc, st_in)"
    by (cases "OutputDocumentFor_enter env ?models theme_arg False st")
  with assms r have a: "allowed st_in" by (simp add: scope_store_def)
  show ?thesis
    using Inr e a
    by (simp add: components_def Let_def with_OutputDocumentFor_def enter_serializing_where
          reshape_serializing_where serializing_where_other_fields
          serializing_where_allowed split: sum.splits prod.splits)
qed

text \<open>
  Claim C8. Theme precedence, for every invocation that takes a theme argument
  (\<^verbatim>\<open>components\<close>, \<^verbatim>\<open>file_html\<close>, \<^verbatim>\<open>json_item\<close>): the entry point serializes only in a store in
  which the resolved document carries the theme that precedence chooses from the theme
  argument it was given: the explicitly supplied theme; otherwise, when the resolved
  document is a reused one that carries a theme, that theme; otherwise the default theme.
  Stated as: the outcome of the call is unchanged when serialization is made to raise in
  every store in which the resolved document carries any other theme.
\<close>

theorem theme_precedence_at_serialization:
  "(reused_document_exists st (requested_objects x) \<longrightarrow>
      components env x wrap_script wrap_plot_info theme_arg st =
      components
        (serializing_where
           (carries_theme (resolved_document env (requested_objects x) theme_arg False st)
              (chosen_theme env (requested_objects x) theme_arg False st))
           env)
        x wrap_script wrap_plot_info theme_arg st) \<and>
   (reused_document_exists st (models_seq st models) \<longrightarrow>
      file_html env models resources title_arg template template_variables theme_arg
        suppress always_new st =
      file_html
        (serializing_where
           (carries_theme (resolved_document env (models_seq st models) theme_arg always_new st)
              (chosen_theme env (models_seq st models) theme_arg always_new st))
           env)
        models resources title_arg template template_variables theme_arg suppress always_new st) \<and>
   (reused_document_exists st [Model m] \<longrightarrow>
      json_item env m target theme_arg st =
      json_item
        (serializing_where
           (carries_theme (resolved_document env [Model m] theme_arg False st)
              (chosen_theme env [Model m] theme_arg False st))
           env)
        m target theme_arg st)"
  by (simp add: components_serializing_where file_html_serializing_where
        json_item_serializing_where scope_store_theme json_item_store_in_def
        carries_theme_set_title del: reused_document_exists.simps)

theorem theme_precedence_at_serialization_witness:
  "reused_document_exists example_store (models_seq example_store (Seq [Model 0, Model 1])) \<and>
   resolved_document example_env [Model 0, Model 1] (Some (Theme ''light'')) False
     example_store = 0 \<and>
   chosen_theme example_env [Model 0, Model 1] (Some (Theme ''light'')) False example_store =
     Theme ''light'' \<and>
   snd (file_html (serializing_where (carries_theme 0 (Theme ''light'')) example_env)
          (Seq [Model 0, Model 1]) None None () () (Some (Theme ''light'')) False False
          example_store) = Inr ''<title>Report</title>'' \<and>
   snd (file_html (serializing_where (carries_theme 0 (Theme ''dark'')) example_env)
          (Seq [Model 0, Model 1]) None None () () (Some (Theme ''light'')) False False
          example_store) = Inl (UnsupportedRootError ''serialized in another context'') \<and>
   chosen_theme example_env [Model 0, Model 1] None False example_store = Theme ''dark'' \<and>
   snd (components (serializing_where (carries_theme 0 (Theme ''dark'')) example_env)
          (PList [Obj (Model 0), Obj (Model 1)]) True True None example_store) =
     Inr (''<script>embed(doc)</script>'', Tuple [Div ''<div id=e>'', Div ''<div id=ei>'']) \<and>
   chosen_theme example_env [Model 2] None False example_store = Theme ''default'' \<and>
   snd (json_item (serializing_where (carries_theme 1 (Theme ''default'')) example_env)
          2 None None example_store) =
     Inr \<lparr>target_id = None, root_id = JStr ''mii'',
          doc = JDict [(''title'', JStr []), (''roots'', JList [JDict [(''id'', JStr ''mii'')]])],
          version = ''3.0''\<rparr>"
  using theme_precedence_at_serialization
          [where st = example_store and env = example_env
             and x = "PList [Obj (Model 0), Obj (Model 1)]"
             and wrap_script = True and wrap_plot_info = True
             and models = "Seq [Model 0, Model 1]" and resources = None and title_arg = None
             and template = "()" and template_variables = "()" and suppress = False
             and always_new = False and theme_arg = "Some (Theme ''light'')"
             and m = 2 and target = None]
        theme_precedence_at_serialization
          [where st = example_store and env = example_env
             and x = "PList [Obj (Model 0), Obj (Model 1)]"
             and wrap_script = True and wrap_plot_info = True
             and models = "Seq [Model 0, Model 1]" and resources = None and title_arg = None
             and template = "()" and template_variables = "()" and suppress = False
             and always_new = False and theme_arg = None
             and m = 2 and target = None]
  by (simp add: entry_point_defs dict_type_call_def example_defs serializing_where_def
        carries_theme_def chosen_theme_def title_of_listed_document_find Let_def
        eval_nat_numeral)

subsection \<open>Two runs\<close>

lemma snd_json_item:
  "snd (json_item env m target theme_arg st) =
     (case one_doc_json (standalone_docs_json env (json_item_store_in env m theme_arg st)
                           [Model m]) of
        Inl e \<Rightarrow> Inl e
      | Inr doc_json \<Rightarrow>
          (case first_root_id doc_json of
             Inl e \<Rightarrow> Inl e
           | Inr found \<Rightarrow>
               Inr \<lparr>target_id = target, root_id = found, doc = doc_json,
                    version = bokeh_version env\<rparr>))"
proof -
  obtain sc st_in where
    "OutputDocumentFor_enter env [Model m] theme_arg False st = (sc, st_in)"
    by (cases "OutputDocumentFor_enter env [Model m] theme_arg False st")
  then show ?thesis
    by (simp add: json_item_def with_OutputDocumentFor_def json_item_store_in_def
          scope_store_def resolved_document_def split: sum.splits)
qed

lemma shared_container_set_title:
  "shared_container (set_title d t st) ms = shared_container st ms"
  by (simp add: shared_container_def set_title_def)

lemma theme_set_title: "theme (docs (set_title d t st) ! d) = theme (docs st ! d)"
  by (cases "d < length (docs st)") (simp_all add: set_title_def list_update_beyond)

lemma set_title_twice:
  "set_title d t (set_theme d th (set_title d t st)) = set_title d t (set_theme d th st)"
  by (cases "d < length (docs st)")
     (simp_all add: set_title_def set_theme_def list_update_beyond)

lemma json_item_store_in_again:
  "json_item_store_in env m theme_arg (fst (json_item env m target theme_arg st)) =
     json_item_store_in env m theme_arg st"
proof (cases "shared_container st [m]")
  case None
  then show ?thesis by (simp add: json_item_store)
next
  case (Some d)
  then show ?thesis
    by (simp add: json_item_store json_item_store_in_def scope_store_def
          resolved_document_def OutputDocumentFor_enter_def resolved_items_def Let_def
          shared_container_set_title theme_set_title set_title_twice)
qed

text \<open>
  Claim C9. Determinism: calling an entry point a second time with the same arguments and
  the same collaborators (hence the same supply of generated identifiers), on the objects
  as the first call left them, produces the same artifact (or raises the same error) as
  the first call.
\<close>

theorem two_runs_agree:
  "snd (autoload_static env model resources script_path
          (fst (autoload_static env model resources script_path st))) =
     snd (autoload_static env model resources script_path st) \<and>
   snd (components env x wrap_script wrap_plot_info theme_arg
          (fst (components env x wrap_script wrap_plot_info theme_arg st))) =
     snd (components env x wrap_script wrap_plot_info theme_arg st) \<and>
   snd (file_html env models resources' title_arg template template_variables theme_arg'
          suppress always_new
          (fst (file_html env models resources' title_arg template template_variables
                  theme_arg' suppress always_new st))) =
     snd (file_html env models resources' title_arg template template_variables theme_arg'
            suppress always_new st) \<and>
   snd (json_item env m target theme_arg''
          (fst (json_item env m target theme_arg'' st))) =
     snd (json_item env m target theme_arg'' st)"
  by (simp add: autoload_static_store components_store file_html_store snd_json_item
        json_item_store_in_again)

theorem two_runs_agree_witness:
  "fst (json_item example_env 2 (Some ''plot'') None example_store) \<noteq> example_store \<and>
   snd (json_item example_env 2 (Some ''plot'') None
          (fst (json_item example_env 2 (Some ''plot'') None example_store))) =
     snd (json_item example_env 2 (Some ''plot'') None example_store)"
  using two_runs_agree
          [where env = example_env and m = 2 and target = "Some ''plot''"
             and theme_arg'' = None and st = example_store]
  by (simp add: json_item_store example_defs Let_def eval_nat_numeral)


end
